theory Spec2Isabelle
  imports Complex_Main
begin

section \<open>JavaScript values\<close>

text \<open>
  The relay of \<^verbatim>\<open>server.js\<close> works on what \<^verbatim>\<open>JSON.parse\<close> returns: the first frame
  of a connection, the later frames, and the content of \<^verbatim>\<open>servers.json\<close>. A value is
  one of the JSON values, or \<^verbatim>\<open>undefined\<close> (what reading an absent property gives).
  Numbers are kept exact, as rationals. JavaScript rounds a literal to binary64; a
  rational stands for the binary64 number nearest to it. The rounding changes no
  integer of magnitude below \<open>2^53\<close>, and it commutes with the two products of the
  relay, by 8 and by 16. Overflow and underflow of binary64 are not modelled, and two
  literals that round to the same number are kept apart. Strings are byte strings
  (UTF-8).
\<close>

datatype jsval =
    Undefined
  | Null
  | Bool bool
  | Num rat
  | Str string
  | Arr "jsval list"
  | Obj "(string \<times> jsval) list"

datatype error = TypeError

text \<open>\<^verbatim>\<open>!v\<close> is false exactly on the truthy values.\<close>

fun truthy :: "jsval \<Rightarrow> bool" where
  "truthy Undefined = False"
| "truthy Null = False"
| "truthy (Bool b) = b"
| "truthy (Num x) = (x \<noteq> 0)"
| "truthy (Str s) = (s \<noteq> [])"
| "truthy (Arr xs) = True"
| "truthy (Obj kvs) = True"

text \<open>\<^verbatim>\<open>a || b\<close>\<close>

definition or_else :: "jsval \<Rightarrow> jsval \<Rightarrow> jsval" where
  "or_else a b = (if truthy a then a else b)"

text \<open>
  \<^verbatim>\<open>a === b\<close>. Objects and arrays are compared by reference; the two sides of every
  comparison of the relay come from different calls of \<^verbatim>\<open>JSON.parse\<close> (or from a literal),
  so two objects or arrays are never the same reference.
\<close>

fun strict_eq :: "jsval \<Rightarrow> jsval \<Rightarrow> bool" where
  "strict_eq Undefined Undefined = True"
| "strict_eq Null Null = True"
| "strict_eq (Bool a) (Bool b) = (a = b)"
| "strict_eq (Num x) (Num y) = (x = y)"
| "strict_eq (Str s) (Str t) = (s = t)"
| "strict_eq _ _ = False"

text \<open>
  \<^verbatim>\<open>v.k\<close>, for the property names the relay reads (\<^verbatim>\<open>token\<close>, \<^verbatim>\<open>serverId\<close>, \<^verbatim>\<open>cols\<close>,
  \<^verbatim>\<open>rows\<close>, \<^verbatim>\<open>auth\<close>, \<^verbatim>\<open>password\<close>, \<^verbatim>\<open>privateKey\<close>, \<^verbatim>\<open>type\<close>, \<^verbatim>\<open>id\<close>, \<^verbatim>\<open>host\<close>,
  \<^verbatim>\<open>port\<close>, \<^verbatim>\<open>username\<close>): none of them is a property of a number, a boolean, a string
  or an array. Of a repeated key of an object, \<^verbatim>\<open>JSON.parse\<close> keeps the last value.
  Reading a property of \<^verbatim>\<open>null\<close> or \<^verbatim>\<open>undefined\<close> throws a TypeError.
\<close>

fun get_prop :: "jsval \<Rightarrow> string \<Rightarrow> jsval" where
  "get_prop (Obj kvs) k = (case map_of (rev kvs) k of None \<Rightarrow> Undefined | Some v \<Rightarrow> v)"
| "get_prop _ k = Undefined"

definition nullish :: "jsval \<Rightarrow> bool" where
  "nullish v = (v = Null \<or> v = Undefined)"

definition get :: "jsval \<Rightarrow> string \<Rightarrow> error + jsval" where
  "get v k = (if nullish v then Inl TypeError else Inr (get_prop v k))"

text \<open>\<^verbatim>\<open>v?.k\<close>\<close>

definition opt_get :: "jsval \<Rightarrow> string \<Rightarrow> jsval" where
  "opt_get v k = (if nullish v then Undefined else get_prop v k)"

text \<open>
  \<^verbatim>\<open>v * k\<close> for a number \<open>k\<close>. The left operand is converted by ToNumber: \<^verbatim>\<open>undefined\<close>
  and objects give NaN, \<^verbatim>\<open>null\<close> and \<^verbatim>\<open>false\<close> give 0, \<^verbatim>\<open>true\<close> gives 1. The conversion
  of a string or of an array (StringToNumber of its text) is not expanded: the product
  is kept as the term \<open>Times v k\<close>.
\<close>

datatype jsnumber = Number rat | NaN | Times jsval rat

fun times :: "jsval \<Rightarrow> rat \<Rightarrow> jsnumber" where
  "times (Num x) k = Number (x * k)"
| "times Undefined k = NaN"
| "times Null k = Number 0"
| "times (Bool b) k = Number (if b then k else 0)"
| "times (Obj kvs) k = NaN"
| "times v k = Times v k"

section \<open>\<^verbatim>\<open>JSON.parse\<close>\<close>

text \<open>
  \<^verbatim>\<open>JSON.parse(raw.toString())\<close> on the bytes of a frame or of a file: the JSON grammar
  of ECMA-404, \<open>None\<close> where \<^verbatim>\<open>JSON.parse\<close> throws a SyntaxError. The text is first cut
  into tokens, one character at a time; the tokens are then read by a machine with a
  stack of the arrays and objects that are still open.
  An escape \<^verbatim>\<open>\uXXXX\<close> is stored as the UTF-8 bytes of that code unit (the two halves
  of a surrogate pair are not joined).
\<close>

datatype token =
    LBrace | RBrace | LBracket | RBracket | Colon | Comma
  | TStr string
  | TLit jsval

datatype mode =
    Top
  | Word string
  | InStr string
  | Esc string
  | Uni string "nat list"

definition is_digit :: "char \<Rightarrow> bool" where
  "is_digit c = (c \<in> set ''0123456789'')"

definition digit_val :: "char \<Rightarrow> nat" where
  "digit_val c = of_char c - 48"

definition digits_val :: "string \<Rightarrow> nat" where
  "digits_val s = foldl (\<lambda>n c. 10 * n + digit_val c) 0 s"

definition word_char :: "char \<Rightarrow> bool" where
  "word_char c = (is_digit c \<or> c \<in> set ''+-.abcdefghijklmnopqrstuvwxyzABCDEFGHIJKLMNOPQRSTUVWXYZ'')"

definition json_space :: "char \<Rightarrow> bool" where
  "json_space c = (c \<in> {CHR '' '', CHR 0x09, CHR 0x0A, CHR 0x0D})"

text \<open>The exponent part of a number: empty, or \<^verbatim>\<open>e\<close>, an optional sign and digits.\<close>

fun exponent :: "string \<Rightarrow> int option" where
  "exponent [] = Some 0"
| "exponent (c # r) =
     (if c = CHR ''e'' \<or> c = CHR ''E'' then
        (case r of
           [] \<Rightarrow> None
         | d # ds \<Rightarrow>
             (if d = CHR ''-'' then
                (if ds \<noteq> [] \<and> list_all is_digit ds then Some (- int (digits_val ds)) else None)
              else if d = CHR ''+'' then
                (if ds \<noteq> [] \<and> list_all is_digit ds then Some (int (digits_val ds)) else None)
              else
                (if list_all is_digit r then Some (int (digits_val r)) else None)))
      else None)"

definition pow10 :: "int \<Rightarrow> rat" where
  "pow10 e = (if 0 \<le> e then 10 ^ nat e else 1 / 10 ^ nat (- e))"

text \<open>
  A number: an optional minus, an integer part without a leading zero (unless it is
  \<^verbatim>\<open>0\<close> alone), an optional fraction with at least one digit, an optional exponent.
\<close>

definition number_of :: "string \<Rightarrow> rat option" where
  "number_of s =
     (let neg = (s \<noteq> [] \<and> hd s = CHR ''-'');
          s1 = (if neg then tl s else s);
          ip = takeWhile is_digit s1;
          s2 = dropWhile is_digit s1;
          has_frac = (s2 \<noteq> [] \<and> hd s2 = CHR ''.'');
          fp = (if has_frac then takeWhile is_digit (tl s2) else []);
          s3 = (if has_frac then dropWhile is_digit (tl s2) else s2)
      in if ip = [] \<or> (1 < length ip \<and> hd ip = CHR ''0'') \<or> (has_frac \<and> fp = []) then None
         else (case exponent s3 of
                 None \<Rightarrow> None
               | Some e \<Rightarrow>
                   Some ((if neg then - 1 else 1)
                         * (of_nat (digits_val ip) + of_nat (digits_val fp) / 10 ^ length fp)
                         * pow10 e)))"

definition word_token :: "string \<Rightarrow> token option" where
  "word_token w =
     (if w = ''true'' then Some (TLit (Bool True))
      else if w = ''false'' then Some (TLit (Bool False))
      else if w = ''null'' then Some (TLit Null)
      else map_option (\<lambda>x. TLit (Num x)) (number_of w))"

text \<open>The character after a backslash in a string, \<^verbatim>\<open>u\<close> apart.\<close>

definition escape :: "char \<Rightarrow> char option" where
  "escape c =
     (if c = CHR 0x22 \<or> c = CHR 0x5C \<or> c = CHR ''/'' then Some c
      else if c = CHR ''b'' then Some (CHR 0x08)
      else if c = CHR ''f'' then Some (CHR 0x0C)
      else if c = CHR ''n'' then Some (CHR 0x0A)
      else if c = CHR ''r'' then Some (CHR 0x0D)
      else if c = CHR ''t'' then Some (CHR 0x09)
      else None)"

definition hex_val :: "char \<Rightarrow> nat option" where
  "hex_val c =
     (if is_digit c then Some (digit_val c)
      else if c \<in> set ''abcdef'' then Some (of_char c - 87)
      else if c \<in> set ''ABCDEF'' then Some (of_char c - 55)
      else None)"

definition utf8 :: "nat \<Rightarrow> string" where
  "utf8 n =
     (if n < 0x80 then [char_of n]
      else if n < 0x800 then [char_of (0xC0 + n div 0x40), char_of (0x80 + n mod 0x40)]
      else [char_of (0xE0 + n div 0x1000), char_of (0x80 + (n div 0x40) mod 0x40),
            char_of (0x80 + n mod 0x40)])"

text \<open>What a character starts outside a string and outside a word.\<close>

definition start :: "char \<Rightarrow> (token list \<times> mode) option" where
  "start c =
     (if json_space c then Some ([], Top)
      else if c = CHR ''{'' then Some ([LBrace], Top)
      else if c = CHR ''}'' then Some ([RBrace], Top)
      else if c = CHR ''['' then Some ([LBracket], Top)
      else if c = CHR '']'' then Some ([RBracket], Top)
      else if c = CHR '':'' then Some ([Colon], Top)
      else if c = CHR '','' then Some ([Comma], Top)
      else if c = CHR 0x22 then Some ([], InStr [])
      else if word_char c then Some ([], Word [c])
      else None)"

text \<open>
  The tokens read so far are kept in reverse, as are the characters of the word or
  string being read.
\<close>

fun lex :: "mode \<Rightarrow> token list \<Rightarrow> string \<Rightarrow> token list option" where
  "lex Top acc [] = Some (rev acc)"
| "lex (Word w) acc [] = map_option (\<lambda>t. rev (t # acc)) (word_token (rev w))"
| "lex m acc [] = None"
| "lex Top acc (c # cs) =
     (case start c of None \<Rightarrow> None | Some (ts, m) \<Rightarrow> lex m (ts @ acc) cs)"
| "lex (Word w) acc (c # cs) =
     (if word_char c then lex (Word (c # w)) acc cs
      else (case word_token (rev w) of
              None \<Rightarrow> None
            | Some t \<Rightarrow>
                (case start c of None \<Rightarrow> None | Some (ts, m) \<Rightarrow> lex m (ts @ t # acc) cs)))"
| "lex (InStr s) acc (c # cs) =
     (if c = CHR 0x22 then lex Top (TStr (rev s) # acc) cs
      else if c = CHR 0x5C then lex (Esc s) acc cs
      else if (of_char c :: nat) < 0x20 then None
      else lex (InStr (c # s)) acc cs)"
| "lex (Esc s) acc (c # cs) =
     (if c = CHR ''u'' then lex (Uni s []) acc cs
      else (case escape c of None \<Rightarrow> None | Some e \<Rightarrow> lex (InStr (e # s)) acc cs))"
| "lex (Uni s h) acc (c # cs) =
     (case hex_val c of
        None \<Rightarrow> None
      | Some d \<Rightarrow>
          (if length h = 3
           then lex (InStr (rev (utf8 (foldl (\<lambda>n x. 16 * n + x) 0 (rev (d # h)))) @ s)) acc cs
           else lex (Uni s (d # h)) acc cs))"

text \<open>
  The stack holds, for each array or object still open, what it has so far (in
  reverse); for an object, also the key whose value is being read.
\<close>

datatype frame = CArr "jsval list" | CObj "(string \<times> jsval) list" string

datatype pstate =
    PVal
  | PArr0
  | PObj0
  | PKey "(string \<times> jsval) list"
  | PColon "(string \<times> jsval) list" string
  | PDone jsval

text \<open>A token where a value is expected.\<close>

fun value_token :: "token \<Rightarrow> frame list \<Rightarrow> (pstate \<times> frame list) option" where
  "value_token (TLit v) stk = Some (PDone v, stk)"
| "value_token (TStr s) stk = Some (PDone (Str s), stk)"
| "value_token LBracket stk = Some (PArr0, stk)"
| "value_token LBrace stk = Some (PObj0, stk)"
| "value_token t stk = None"

fun parse_step :: "pstate \<Rightarrow> frame list \<Rightarrow> token \<Rightarrow> (pstate \<times> frame list) option" where
  "parse_step PVal stk t = value_token t stk"
| "parse_step PArr0 stk t =
     (if t = RBracket then Some (PDone (Arr []), stk) else value_token t (CArr [] # stk))"
| "parse_step PObj0 stk t =
     (case t of
        RBrace \<Rightarrow> Some (PDone (Obj []), stk)
      | TStr k \<Rightarrow> Some (PColon [] k, stk)
      | _ \<Rightarrow> None)"
| "parse_step (PKey kvs) stk t = (case t of TStr k \<Rightarrow> Some (PColon kvs k, stk) | _ \<Rightarrow> None)"
| "parse_step (PColon kvs k) stk t = (if t = Colon then Some (PVal, CObj kvs k # stk) else None)"
| "parse_step (PDone v) [] t = None"
| "parse_step (PDone v) (CArr vs # stk) t =
     (if t = Comma then Some (PVal, CArr (v # vs) # stk)
      else if t = RBracket then Some (PDone (Arr (rev (v # vs))), stk)
      else None)"
| "parse_step (PDone v) (CObj kvs k # stk) t =
     (if t = Comma then Some (PKey ((k, v) # kvs), stk)
      else if t = RBrace then Some (PDone (Obj (rev ((k, v) # kvs))), stk)
      else None)"

fun parse :: "pstate \<Rightarrow> frame list \<Rightarrow> token list \<Rightarrow> jsval option" where
  "parse (PDone v) [] [] = Some v"
| "parse st stk [] = None"
| "parse st stk (t # ts) =
     (case parse_step st stk t of None \<Rightarrow> None | Some (st', stk') \<Rightarrow> parse st' stk' ts)"

definition JSON_parse :: "string \<Rightarrow> jsval option" where
  "JSON_parse raw = (case lex Top [] raw of None \<Rightarrow> None | Some ts \<Rightarrow> parse PVal [] ts)"

section \<open>Configuration read at start\<close>

text \<open>
  The environment variables the relay reads when the module is loaded; \<open>None\<close> is an
  unset variable.
\<close>

record env =
  env_USE_AUTH :: "string option"
  env_ALLOWED_SSH_HOSTS :: "string option"

text \<open>\<^verbatim>\<open>const USE_AUTH = process.env.USE_AUTH !== 'false';\<close>\<close>

definition USE_AUTH :: "env \<Rightarrow> bool" where
  "USE_AUTH e = (env_USE_AUTH e \<noteq> Some ''false'')"

text \<open>
  \<^verbatim>\<open>s.trim()\<close> removes white space and line terminators at both ends: the six ASCII
  ones, and (in UTF-8) U+00A0, U+1680, U+2000 to U+200A, U+2028, U+2029, U+202F, U+205F,
  U+3000 and U+FEFF.
\<close>

definition white_space :: "string list" where
  "white_space =
     map (\<lambda>c. [c]) [CHR 0x09, CHR 0x0A, CHR 0x0B, CHR 0x0C, CHR 0x0D, CHR 0x20]
     @ [[CHR 0xC2, CHR 0xA0], [CHR 0xE1, CHR 0x9A, CHR 0x80]]
     @ map (\<lambda>c. [CHR 0xE2, CHR 0x80, c])
         [CHR 0x80, CHR 0x81, CHR 0x82, CHR 0x83, CHR 0x84, CHR 0x85, CHR 0x86, CHR 0x87,
          CHR 0x88, CHR 0x89, CHR 0x8A, CHR 0xA8, CHR 0xA9, CHR 0xAF]
     @ [[CHR 0xE2, CHR 0x81, CHR 0x9F], [CHR 0xE3, CHR 0x80, CHR 0x80],
        [CHR 0xEF, CHR 0xBB, CHR 0xBF]]"

function strip :: "string list \<Rightarrow> string \<Rightarrow> string" where
  "strip ps s =
     (case find (\<lambda>p. p \<noteq> [] \<and> take (length p) s = p) ps of
        None \<Rightarrow> s
      | Some p \<Rightarrow> strip ps (drop (length p) s))"
  by pat_completeness auto
termination
proof (relation "measure (\<lambda>(ps, s). length s)")
  show "wf (measure (\<lambda>(ps, s). length s))" by simp
next
  fix ps :: "string list" and s p :: string
  assume "find (\<lambda>p. p \<noteq> [] \<and> take (length p) s = p) ps = Some p"
  then have "p \<noteq> []" and "take (length p) s = p"
    by (auto simp: find_Some_iff)
  then have "s \<noteq> []" by auto
  with \<open>p \<noteq> []\<close> show "((ps, drop (length p) s), (ps, s)) \<in> measure (\<lambda>(ps, s). length s)"
    by simp
qed

definition trim :: "string \<Rightarrow> string" where
  "trim s = rev (strip (map rev white_space) (rev (strip white_space s)))"

text \<open>\<^verbatim>\<open>s.split(',')\<close>: the pieces between the commas, at least one.\<close>

fun split_comma :: "string \<Rightarrow> string list" where
  "split_comma [] = [[]]"
| "split_comma (c # cs) =
     (if c = CHR '','' then [] # split_comma cs
      else (case split_comma cs of [] \<Rightarrow> [[c]] | w # ws \<Rightarrow> (c # w) # ws))"

text \<open>
  \<^verbatim>\<open>const ALLOWED = (process.env.ALLOWED_SSH_HOSTS || '')
    .split(',').map(s => s.trim()).filter(Boolean);\<close>
\<close>

definition ALLOWED :: "env \<Rightarrow> string list" where
  "ALLOWED e =
     filter (\<lambda>s. s \<noteq> [])
       (map trim (split_comma (case env_ALLOWED_SSH_HOSTS e of None \<Rightarrow> [] | Some v \<Rightarrow> v)))"

text \<open>
  The text of a close reason. \<open>Host_not_allowed host\<close> is the message of the error of
  \<^verbatim>\<open>assertAllowedHost\<close>, \<^verbatim>\<open>`Host ${host} nu este permis`\<close>, with the host as found in the
  store.
\<close>

datatype message = Text string | Host_not_allowed jsval

text \<open>
  \<^verbatim>\<open>function assertAllowedHost(host) {
    if (!ALLOWED.length) return;
    if (!ALLOWED.includes(host)) throw new Error(`Host ${host} nu este permis`);
  }\<close>
  \<^verbatim>\<open>includes\<close> compares with SameValueZero: an entry, a string, equals the host only if
  the host is that string.
\<close>

definition array_includes :: "string list \<Rightarrow> jsval \<Rightarrow> bool" where
  "array_includes xs v = (case v of Str h \<Rightarrow> h \<in> set xs | _ \<Rightarrow> False)"

definition assertAllowedHost :: "string list \<Rightarrow> jsval \<Rightarrow> message + unit" where
  "assertAllowedHost allowed host =
     (if allowed = [] then Inr ()
      else if \<not> array_includes allowed host then Inl (Host_not_allowed host)
      else Inr ())"

section \<open>The target store\<close>

text \<open>
  \<^verbatim>\<open>readServers\<close>, on the content of \<^verbatim>\<open>servers.json\<close> (which \<^verbatim>\<open>ensureDataFile\<close> creates
  as \<^verbatim>\<open>[]\<close> when it is missing):
  \<^verbatim>\<open>const raw = (await fs.readFile(SERVERS_PATH, 'utf8')).trim();
  if (!raw) return [];
  try { return JSON.parse(raw); } catch { return []; }\<close>
\<close>

definition readServers :: "string \<Rightarrow> jsval" where
  "readServers content =
     (let raw = trim content
      in if raw = [] then Arr []
         else (case JSON_parse raw of None \<Rightarrow> Arr [] | Some v \<Rightarrow> v))"

text \<open>
  \<^verbatim>\<open>servers.find(s => s.id === cfg.serverId)\<close>: the first element whose id is the
  requested one, \<^verbatim>\<open>undefined\<close> when there is none. The callback reads \<^verbatim>\<open>s.id\<close>, then
  \<^verbatim>\<open>cfg.serverId\<close>; either read throws on \<^verbatim>\<open>null\<close>. What is not an array has no \<^verbatim>\<open>find\<close>.
\<close>

fun find_server :: "jsval list \<Rightarrow> jsval \<Rightarrow> error + jsval" where
  "find_server [] cfg = Inr Undefined"
| "find_server (s # ss) cfg =
     (case get s ''id'' of
        Inl x \<Rightarrow> Inl x
      | Inr i \<Rightarrow>
          (case get cfg ''serverId'' of
             Inl x \<Rightarrow> Inl x
           | Inr sid \<Rightarrow> if strict_eq i sid then Inr s else find_server ss cfg))"

definition servers_find :: "jsval \<Rightarrow> jsval \<Rightarrow> error + jsval" where
  "servers_find servers cfg =
     (case servers of Arr ss \<Rightarrow> find_server ss cfg | _ \<Rightarrow> Inl TypeError)"

section \<open>The session relay\<close>

text \<open>
  The variables of one connection (\<^verbatim>\<open>let ssh, stream; let alive = true;\<close>). \<open>ssh\<close> is
  \<open>None\<close> until the SSH client is created; then it holds the \<^verbatim>\<open>cfg\<close> and the \<^verbatim>\<open>srv\<close> that
  the handlers of the client have closed over. \<open>stream\<close> is true once the shell
  callback has stored the channel.
\<close>

record session =
  ssh :: "(jsval \<times> jsval) option"
  stream :: bool
  alive :: bool

definition initial :: session where
  "initial = \<lparr>ssh = None, stream = False, alive = True\<rparr>"

text \<open>The argument of \<^verbatim>\<open>ssh.connect\<close>.\<close>

record connect_config =
  host :: jsval
  port :: jsval
  username :: jsval
  password :: jsval
  privateKey :: jsval
  tryKeyboard :: bool

text \<open>
  What a handler does to the two transports: its calls of \<^verbatim>\<open>ws\<close> and \<^verbatim>\<open>ssh2\<close>, in their
  order. What the two libraries do with a call is outside the model.
  \<open>WsClose None\<close> is \<^verbatim>\<open>ws.close()\<close>, \<open>WsClose (Some (code, reason))\<close> is
  \<^verbatim>\<open>ws.close(code, reason)\<close>; \<open>StreamSetWindow\<close> has the four arguments of
  \<^verbatim>\<open>stream.setWindow\<close>; \<open>SshShell\<close> has \<^verbatim>\<open>term\<close>, \<^verbatim>\<open>cols\<close> and \<^verbatim>\<open>rows\<close>; \<open>Finish\<close> is the
  answer to a keyboard-interactive request.
\<close>

datatype action =
    WsSend string
  | WsClose "(nat \<times> message) option"
  | SshConnect connect_config
  | SshShell string jsval jsval
  | SshEnd
  | Finish "jsval list"
  | StreamSetWindow jsval jsval jsnumber jsnumber
  | StreamWrite string
  | StreamClose

text \<open>
  What a handshake reads outside the process: the content of \<^verbatim>\<open>servers.json\<close> at that
  moment, and whether \<^verbatim>\<open>jsonwebtoken\<close>'s \<^verbatim>\<open>verify(t, process.env.JWT_SECRET)\<close> returns
  for a token (it throws otherwise).
\<close>

record world =
  servers_file :: string
  jwt_verify :: "jsval \<Rightarrow> bool"

text \<open>
  The \<^verbatim>\<open>try\<close> block of the token check returns iff no statement of it throws:
  \<^verbatim>\<open>const t = cfg.token; if (!t) throw new Error('Missing JWT'); ... verify(t, ...)\<close>
\<close>

definition token_ok :: "world \<Rightarrow> jsval \<Rightarrow> bool" where
  "token_ok w cfg =
     (case get cfg ''token'' of Inl x \<Rightarrow> False | Inr t \<Rightarrow> truthy t \<and> jwt_verify w t)"

definition first_message_reason :: string where
  "first_message_reason = ''Primul mesaj trebuie s'' @ [CHR 0xC4, CHR 0x83] @ '' fie JSON''"

text \<open>
  The first branch of the message handler (\<^verbatim>\<open>if (!ssh)\<close>), in two parts. A TypeError
  that no \<^verbatim>\<open>try\<close> catches rejects the promise of the handler: the result is \<open>Inl\<close>,
  and the variables of the connection are as before.

  \<open>dial\<close> is the part from \<^verbatim>\<open>const servers = await readServers();\<close> on: the lookup
  of the target, the admission of its host, and the creation and connection of the SSH
  client. The argument of \<^verbatim>\<open>connect\<close> reads \<^verbatim>\<open>cfg.auth\<close> after \<^verbatim>\<open>ssh\<close> is assigned; that
  read does not throw, since a target was found only after \<^verbatim>\<open>cfg.serverId\<close> was read
  (lemma \<open>found_cfg_not_null\<close>).

  The handler is asynchronous and awaits the verification of the token and the read of
  the store. Here a frame is handled in one step: no other event of the connection is
  taken to arrive during these two waits.
\<close>

definition dial :: "env \<Rightarrow> world \<Rightarrow> session \<Rightarrow> jsval \<Rightarrow> error + session \<times> action list" where
  "dial e w s cfg =
     (case servers_find (readServers (servers_file w)) cfg of
        Inl x \<Rightarrow> Inl x
      | Inr srv \<Rightarrow>
          if \<not> truthy srv
          then Inr (s, [WsClose (Some (1008, Text ''Server necunoscut''))])
          else
            (case assertAllowedHost (ALLOWED e) (get_prop srv ''host'') of
               Inl m \<Rightarrow> Inr (s, [WsClose (Some (1008, m))])
             | Inr u \<Rightarrow>
                 (case get cfg ''auth'' of
                    Inl x \<Rightarrow> Inl x
                  | Inr auth \<Rightarrow>
                      Inr (s\<lparr>ssh := Some (cfg, srv)\<rparr>,
                           [SshConnect
                              \<lparr>host = get_prop srv ''host'',
                               port = or_else (get_prop srv ''port'') (Num 22),
                               username = get_prop srv ''username'',
                               password = opt_get auth ''password'',
                               privateKey = opt_get auth ''privateKey'',
                               tryKeyboard = True\<rparr>]))))"

text \<open>
  The part before it: the first message must be JSON, and, with \<^verbatim>\<open>USE_AUTH\<close>, carry a
  token that verifies.
  \<^verbatim>\<open>try { cfg = JSON.parse(raw.toString()); }
  catch { ws.close(1008, 'Primul mesaj trebuie s\<dots> fie JSON'); return; }
  if (USE_AUTH) { try { ... } catch (e) { ws.close(1008, 'JWT invalid'); return; } }\<close>
\<close>

definition handshake :: "env \<Rightarrow> world \<Rightarrow> session \<Rightarrow> string \<Rightarrow> error + session \<times> action list" where
  "handshake e w s raw =
     (case JSON_parse raw of
        None \<Rightarrow> Inr (s, [WsClose (Some (1008, Text first_message_reason))])
      | Some cfg \<Rightarrow>
          if USE_AUTH e \<and> \<not> token_ok w cfg
          then Inr (s, [WsClose (Some (1008, Text ''JWT invalid''))])
          else dial e w s cfg)"

text \<open>
  The second branch (\<^verbatim>\<open>else\<close>): a resize or input.
  \<^verbatim>\<open>try {
    const msg = JSON.parse(raw.toString());
    if (msg.type === 'resize' && stream) {
      stream.setWindow(msg.rows, msg.cols, msg.cols * 8, msg.rows * 16);
      return;
    }
  } catch {}
  if (stream) stream.write(raw);\<close>
\<close>

definition write_input :: "session \<Rightarrow> string \<Rightarrow> action list" where
  "write_input s raw = (if stream s then [StreamWrite raw] else [])"

definition relay :: "session \<Rightarrow> string \<Rightarrow> action list" where
  "relay s raw =
     (case JSON_parse raw of
        None \<Rightarrow> write_input s raw
      | Some msg \<Rightarrow>
          (case get msg ''type'' of
             Inl x \<Rightarrow> write_input s raw
           | Inr t \<Rightarrow>
               if strict_eq t (Str ''resize'') \<and> stream s
               then [StreamSetWindow (get_prop msg ''rows'') (get_prop msg ''cols'')
                       (times (get_prop msg ''cols'') 8) (times (get_prop msg ''rows'') 16)]
               else write_input s raw))"

text \<open>\<^verbatim>\<open>ws.on('message', async (raw) => { if (!ssh) { ... } else { ... } })\<close>\<close>

definition on_message :: "env \<Rightarrow> world \<Rightarrow> session \<Rightarrow> string \<Rightarrow> error + session \<times> action list" where
  "on_message e w s raw =
     (if ssh s = None then handshake e w s raw else Inr (s, relay s raw))"

text \<open>
  The handlers of the SSH client exist once the client does; those of the channel once
  the shell callback has stored it.
  \<^verbatim>\<open>ssh.shell({ term: 'xterm-256color', cols: cfg.cols || 80, rows: cfg.rows || 24 }, ...)\<close>
\<close>

definition on_ready :: "session \<Rightarrow> error + session \<times> action list" where
  "on_ready s =
     (case ssh s of
        None \<Rightarrow> Inr (s, [])
      | Some (cfg, srv) \<Rightarrow>
          (case get cfg ''cols'' of
             Inl x \<Rightarrow> Inl x
           | Inr c \<Rightarrow>
               (case get cfg ''rows'' of
                  Inl x \<Rightarrow> Inl x
                | Inr r \<Rightarrow>
                    Inr (s, [SshShell ''xterm-256color'' (or_else c (Num 80)) (or_else r (Num 24))]))))"

text \<open>
  The callback of \<^verbatim>\<open>ssh.shell\<close>, with the message of the error if there is one:
  \<^verbatim>\<open>if (err) { ws.close(1011, `PTY error: ${err.message}`); return; }
  stream = s;\<close>
\<close>

definition on_shell :: "session \<Rightarrow> string option \<Rightarrow> session \<times> action list" where
  "on_shell s err =
     (if ssh s = None then (s, [])
      else (case err of
              Some m \<Rightarrow> (s, [WsClose (Some (1011, Text (''PTY error: '' @ m)))])
            | None \<Rightarrow> (s\<lparr>stream := True\<rparr>, [])))"

text \<open>
  \<^verbatim>\<open>stream.on('data', d => alive && ws.send(d));
  stream.stderr?.on('data', d => alive && ws.send(d));
  stream.on('close', () => { try { ws.close(); } catch {} });\<close>
\<close>

definition on_stream_data :: "session \<Rightarrow> string \<Rightarrow> action list" where
  "on_stream_data s d = (if stream s \<and> alive s then [WsSend d] else [])"

definition on_stderr_data :: "session \<Rightarrow> string \<Rightarrow> action list" where
  "on_stderr_data s d = (if stream s \<and> alive s then [WsSend d] else [])"

definition on_stream_close :: "session \<Rightarrow> action list" where
  "on_stream_close s = (if stream s then [WsClose None] else [])"

text \<open>
  \<^verbatim>\<open>.on('error', (e) => {
    try { ws.send(Buffer.from(`\r\n[SSH ERROR] ${e.message}\r\n`)); } catch {}
    try { ws.close(); } catch {}
  })\<close>
\<close>

definition error_line :: "string \<Rightarrow> string" where
  "error_line m = [CHR 0x0D, CHR 0x0A] @ ''[SSH ERROR] '' @ m @ [CHR 0x0D, CHR 0x0A]"

definition on_error :: "session \<Rightarrow> string \<Rightarrow> action list" where
  "on_error s m = (if ssh s = None then [] else [WsSend (error_line m), WsClose None])"

text \<open>
  \<^verbatim>\<open>.on('keyboard-interactive', (name, instructions, lang, prompts, finish) => {
    const answers = prompts.map(() => cfg.auth?.password || '');
    finish(answers);
  })\<close>
  with the number of prompts. With no prompt the callback of \<^verbatim>\<open>map\<close> is not called.
\<close>

definition on_keyboard_interactive :: "session \<Rightarrow> nat \<Rightarrow> error + session \<times> action list" where
  "on_keyboard_interactive s n =
     (case ssh s of
        None \<Rightarrow> Inr (s, [])
      | Some (cfg, srv) \<Rightarrow>
          if n = 0 then Inr (s, [Finish []])
          else (case get cfg ''auth'' of
                  Inl x \<Rightarrow> Inl x
                | Inr auth \<Rightarrow>
                    Inr (s, [Finish (replicate n (or_else (opt_get auth ''password'') (Str [])))])))"

text \<open>
  \<^verbatim>\<open>ws.on('close', () => {
    alive = false;
    try { stream?.close(); } catch {}
    try { ssh?.end(); } catch {}
  })\<close>
\<close>

definition on_close :: "session \<Rightarrow> session \<times> action list" where
  "on_close s =
     (s\<lparr>alive := False\<rparr>,
      (if stream s then [StreamClose] else []) @ (if ssh s = None then [] else [SshEnd]))"

text \<open>The events of a connection, and the handler of each.\<close>

datatype event =
    OnMessage string
  | OnClose
  | OnReady
  | OnShell "string option"
  | OnKeyboardInteractive nat
  | OnError string
  | OnStreamData string
  | OnStderrData string
  | OnStreamClose

fun step :: "env \<Rightarrow> world \<Rightarrow> session \<Rightarrow> event \<Rightarrow> error + session \<times> action list" where
  "step e w s (OnMessage raw) = on_message e w s raw"
| "step e w s OnClose = Inr (on_close s)"
| "step e w s OnReady = on_ready s"
| "step e w s (OnShell err) = Inr (on_shell s err)"
| "step e w s (OnKeyboardInteractive n) = on_keyboard_interactive s n"
| "step e w s (OnError m) = Inr (s, on_error s m)"
| "step e w s (OnStreamData d) = Inr (s, on_stream_data s d)"
| "step e w s (OnStderrData d) = Inr (s, on_stderr_data s d)"
| "step e w s OnStreamClose = Inr (s, on_stream_close s)"

text \<open>
  A connection handles its events one after the other, each with the world as it is
  then. The result is what was done to the transports, and the variables at the end,
  or the error of the handler that was rejected (nothing is handled after it).
\<close>

fun run :: "env \<Rightarrow> session \<Rightarrow> (world \<times> event) list \<Rightarrow> action list \<times> (error + session)" where
  "run e s [] = ([], Inr s)"
| "run e s ((w, ev) # rest) =
     (case step e w s ev of
        Inl x \<Rightarrow> ([], Inl x)
      | Inr (s', acts) \<Rightarrow> (case run e s' rest of (acts', r) \<Rightarrow> (acts @ acts', r)))"


fun is_send :: "action \<Rightarrow> bool" where
  "is_send (WsSend d) = True"
| "is_send a = False"

section \<open>A session, for the examples\<close>

text \<open>
  The target \<^verbatim>\<open>{id:"t1", host:"10.0.0.2", port:22, username:"ada"}\<close> alone in the store,
  a verifier that accepts the one token \<^verbatim>\<open><valid>\<close>, and the first frame of a client
  that asks for a terminal of 120 columns and 40 rows on that target.
\<close>

definition example_store :: string where
  "example_store = ''[{\"id\":\"t1\",\"host\":\"10.0.0.2\",\"port\":22,\"username\":\"ada\"}]''"

definition example_world :: world where
  "example_world = \<lparr>servers_file = example_store, jwt_verify = (\<lambda>t. t = Str ''<valid>'')\<rparr>"

definition example_hello :: string where
  "example_hello =
     ''{\"serverId\":\"t1\",\"cols\":120,\"rows\":40,\"auth\":{\"password\":\"p\"},\"token\":\"<valid>\"}''"

definition example_cfg :: jsval where
  "example_cfg =
     Obj [(''serverId'', Str ''t1''), (''cols'', Num 120), (''rows'', Num 40),
          (''auth'', Obj [(''password'', Str ''p'')]), (''token'', Str ''<valid>'')]"

definition example_srv :: jsval where
  "example_srv =
     Obj [(''id'', Str ''t1''), (''host'', Str ''10.0.0.2''), (''port'', Num 22),
          (''username'', Str ''ada'')]"

text \<open>The variables of that connection while dialing, and once the shell is granted.\<close>

definition example_dialing :: session where
  "example_dialing = \<lparr>ssh = Some (example_cfg, example_srv), stream = False, alive = True\<rparr>"

definition example_ready :: session where
  "example_ready = \<lparr>ssh = Some (example_cfg, example_srv), stream = True, alive = True\<rparr>"

text \<open>Auth enforced and no allow-list: neither variable is set.\<close>

definition example_env :: env where
  "example_env = \<lparr>env_USE_AUTH = None, env_ALLOWED_SSH_HOSTS = None\<rparr>"

section \<open>Frames after the handshake\<close>

text \<open>
  Once the SSH client exists, a frame is handled by the second branch; with the shell
  stream it is a resize or input, without it nothing is done.
\<close>

lemma strict_eq_Str: "strict_eq t (Str x) = (t = Str x)"
  by (cases t) simp_all

lemma get_prop_nullish: "nullish v \<Longrightarrow> get_prop v k = Undefined"
  by (auto simp: nullish_def)

lemma on_message_relay: "ssh s \<noteq> None \<Longrightarrow> on_message e w s raw = Inr (s, relay s raw)"
  by (auto simp: on_message_def)

lemma on_message_first: "ssh s = None \<Longrightarrow> on_message e w s raw = handshake e w s raw"
  by (simp add: on_message_def)

lemma relay_dialing: "\<not> stream s \<Longrightarrow> relay s raw = []"
  by (simp add: relay_def write_input_def strict_eq_Str split: option.split sum.split)

lemma relay_ready:
  assumes "stream s"
  shows "relay s raw =
     (case JSON_parse raw of
        None \<Rightarrow> [StreamWrite raw]
      | Some msg \<Rightarrow>
          if get_prop msg ''type'' = Str ''resize''
          then [StreamSetWindow (get_prop msg ''rows'') (get_prop msg ''cols'')
                  (times (get_prop msg ''cols'') 8) (times (get_prop msg ''rows'') 16)]
          else [StreamWrite raw])"
proof (cases "JSON_parse raw")
  case None
  with assms show ?thesis by (simp add: relay_def write_input_def)
next
  case (Some msg)
  show ?thesis
  proof (cases "nullish msg")
    case True
    with Some assms show ?thesis
      by (simp add: relay_def write_input_def get_def get_prop_nullish)
  next
    case False
    with Some assms show ?thesis
      by (simp add: relay_def write_input_def get_def strict_eq_Str)
  qed
qed

text \<open>
  C3. While the shell stream exists, a resize frame \<^verbatim>\<open>{type:"resize", rows, cols}\<close> makes
  exactly one call of \<^verbatim>\<open>stream.setWindow\<close>, with the arguments \<open>rows\<close>, \<open>cols\<close>,
  \<open>cols * 8\<close> and \<open>rows * 16\<close>, and writes nothing to the shell; the session is as before.
  For 50 rows and 200 columns the arguments are 50, 200, 1600 and 800.
\<close>

theorem resize_issues_one_window_change:
  assumes "ssh s \<noteq> None" and "stream s"
    and "JSON_parse raw = Some msg"
    and "get_prop msg ''type'' = Str ''resize''"
    and "get_prop msg ''rows'' = Num rows"
    and "get_prop msg ''cols'' = Num cols"
  shows "on_message e w s raw =
    Inr (s, [StreamSetWindow (Num rows) (Num cols) (Number (cols * 8)) (Number (rows * 16))])"
  using assms by (simp add: on_message_relay relay_ready)

theorem resize_issues_one_window_change_witness:
  "ssh example_ready \<noteq> None \<and> stream example_ready
   \<and> JSON_parse ''{\"type\":\"resize\",\"rows\":50,\"cols\":200}''
       = Some (Obj [(''type'', Str ''resize''), (''rows'', Num 50), (''cols'', Num 200)])
   \<and> on_message example_env example_world example_ready
        ''{\"type\":\"resize\",\"rows\":50,\"cols\":200}''
       = Inr (example_ready, [StreamSetWindow (Num 50) (Num 200) (Number 1600) (Number 800)])"
proof -
  let ?msg = "Obj [(''type'', Str ''resize''), (''rows'', Num 50), (''cols'', Num 200)]"
  have h1: "ssh example_ready \<noteq> None" and h2: "stream example_ready"
    by (simp_all add: example_ready_def)
  have h3: "JSON_parse ''{\"type\":\"resize\",\"rows\":50,\"cols\":200}'' = Some ?msg"
    by code_simp
  have h4: "get_prop ?msg ''type'' = Str ''resize''"
    and h5: "get_prop ?msg ''rows'' = Num 50"
    and h6: "get_prop ?msg ''cols'' = Num 200"
    by simp_all
  from resize_issues_one_window_change [OF h1 h2 h3 h4 h5 h6, of example_env example_world]
  show ?thesis using h1 h2 h3 by simp
qed

text \<open>
  C10. While dialing (the SSH client exists, the shell stream does not), a frame does
  nothing, whatever it holds: no window change, no write, no close, no error, and the
  session is as before. Nothing is kept of it: when the shell is granted next, nothing
  is written.
\<close>

theorem dialing_discards_frames:
  assumes "ssh s \<noteq> None" and "\<not> stream s"
  shows "on_message e w s raw = Inr (s, [])
    \<and> run e s [(w, OnMessage raw), (w', OnShell None)] = ([], Inr (s\<lparr>stream := True\<rparr>))"
  using assms by (auto simp: on_message_relay relay_dialing on_shell_def)

theorem dialing_discards_frames_witness:
  "ssh example_dialing \<noteq> None \<and> \<not> stream example_dialing
   \<and> on_message example_env example_world example_dialing ''ls'' = Inr (example_dialing, [])
   \<and> on_message example_env example_world example_dialing
        ''{\"type\":\"resize\",\"rows\":50,\"cols\":200}'' = Inr (example_dialing, [])
   \<and> run example_env example_dialing
        [(example_world, OnMessage ''ls''), (example_world, OnShell None)]
       = ([], Inr example_ready)"
proof -
  have h1: "ssh example_dialing \<noteq> None" and h2: "\<not> stream example_dialing"
    by (simp_all add: example_dialing_def)
  have "example_dialing\<lparr>stream := True\<rparr> = example_ready"
    by (simp add: example_dialing_def example_ready_def)
  then have a: "on_message example_env example_world example_dialing ''ls''
        = Inr (example_dialing, [])
    \<and> run example_env example_dialing
        [(example_world, OnMessage ''ls''), (example_world, OnShell None)]
       = ([], Inr example_ready)"
    using dialing_discards_frames [OF h1 h2, of example_env example_world "''ls''" example_world]
    by (simp only:)
  from dialing_discards_frames [OF h1 h2, of example_env example_world
      "''{\"type\":\"resize\",\"rows\":50,\"cols\":200}''" example_world]
  have b: "on_message example_env example_world example_dialing
        ''{\"type\":\"resize\",\"rows\":50,\"cols\":200}'' = Inr (example_dialing, [])"
    by (rule conjunct1)
  from h1 h2 a b show ?thesis by blast
qed







section \<open>A Handshake frame after the handshake\<close>

text \<open>
  The first branch either closes the client with code 1008 and leaves the session as
  it is, or creates the SSH client and connects it.
\<close>

lemma found_cfg_not_null:
  assumes "servers_find servers cfg = Inr srv" and "truthy srv"
  shows "get cfg ''auth'' = Inr (get_prop cfg ''auth'')"
proof -
  from assms obtain ss where f: "find_server ss cfg = Inr srv"
    by (auto simp: servers_find_def split: jsval.splits)
  from f assms(2) have "\<not> nullish cfg"
    by (induction ss) (auto simp: get_def split: if_splits)
  then show ?thesis by (simp add: get_def)
qed

lemma dial_cases:
  assumes "dial e w s cfg = Inr (s', acts)"
  shows "(s' = s \<and> (\<exists>m. acts = [WsClose (Some (1008, m))]))
       \<or> (\<exists>srv c. s' = s\<lparr>ssh := Some (cfg, srv)\<rparr> \<and> acts = [SshConnect c])"
  using assms
  by (auto simp: dial_def split: sum.splits if_splits)

lemma handshake_cases:
  assumes "handshake e w s raw = Inr (s', acts)"
  shows "(s' = s \<and> (\<exists>m. acts = [WsClose (Some (1008, m))]))
       \<or> (\<exists>cfg srv c. s' = s\<lparr>ssh := Some (cfg, srv)\<rparr> \<and> acts = [SshConnect c])"
proof (cases "JSON_parse raw")
  case None
  with assms show ?thesis by (auto simp: handshake_def)
next
  case (Some cfg)
  show ?thesis
  proof (cases "USE_AUTH e \<and> \<not> token_ok w cfg")
    case True
    with Some assms show ?thesis by (auto simp: handshake_def)
  next
    case False
    with Some assms have "dial e w s cfg = Inr (s', acts)"
      by (auto simp: handshake_def)
    from dial_cases [OF this] show ?thesis by blast
  qed
qed

text \<open>
  C2, as the specification states it, fails. After the handshake of the example is
  accepted and the shell granted, the same Handshake frame is sent again. It is no
  protocol error: the client is not closed, and the frame is written to the shell as
  input.
\<close>

theorem second_handshake_reaches_shell:
  "run example_env initial
     [(example_world, OnMessage example_hello), (example_world, OnReady),
      (example_world, OnShell None), (example_world, OnMessage example_hello)]
   = ([SshConnect \<lparr>host = Str ''10.0.0.2'', port = Num 22, username = Str ''ada'',
                    password = Str ''p'', privateKey = Undefined, tryKeyboard = True\<rparr>,
       SshShell ''xterm-256color'' (Num 120) (Num 40),
       StreamWrite example_hello],
      Inr example_ready)"
  unfolding example_env_def example_world_def example_hello_def example_store_def
    example_ready_def example_cfg_def example_srv_def initial_def
  by code_simp

text \<open>
  C2, amended. Once the SSH client of a session exists, no frame is handled as a
  Handshake: a frame leaves the session as it is and does nothing but write itself to
  the shell or set the window, so there is no second token check, lookup or connection,
  and the client is not closed. A later frame that holds a SessionConfig (JSON whose
  \<^verbatim>\<open>type\<close> is not \<^verbatim>\<open>"resize"\<close>) is input: it is written to the shell unchanged if the
  shell stream exists, and dropped while dialing.
\<close>

theorem later_handshake_is_input:
  assumes "ssh s \<noteq> None"
  shows "(\<exists>acts. on_message e w s raw = Inr (s, acts)
           \<and> (\<forall>a \<in> set acts. a = StreamWrite raw \<or> (\<exists>r c h v. a = StreamSetWindow r c h v)))
    \<and> (\<forall>cfg. JSON_parse raw = Some cfg \<and> get_prop cfg ''type'' \<noteq> Str ''resize''
          \<longrightarrow> on_message e w s raw = Inr (s, if stream s then [StreamWrite raw] else []))"
proof -
  have a: "\<exists>acts. on_message e w s raw = Inr (s, acts)
           \<and> (\<forall>a \<in> set acts. a = StreamWrite raw \<or> (\<exists>r c h v. a = StreamSetWindow r c h v))"
    using assms
    by (auto simp: on_message_relay relay_def write_input_def split: option.splits sum.splits)
  have b: "on_message e w s raw = Inr (s, if stream s then [StreamWrite raw] else [])"
    if "JSON_parse raw = Some cfg" and "get_prop cfg ''type'' \<noteq> Str ''resize''" for cfg
    using that assms
    by (cases "stream s") (simp_all add: on_message_relay relay_ready relay_dialing)
  from a b show ?thesis by blast
qed

theorem later_handshake_is_input_witness:
  "ssh example_ready \<noteq> None \<and> ssh example_dialing \<noteq> None
   \<and> JSON_parse example_hello = Some example_cfg
   \<and> get_prop example_cfg ''type'' \<noteq> Str ''resize''
   \<and> on_message example_env example_world example_ready example_hello
       = Inr (example_ready, [StreamWrite example_hello])
   \<and> on_message example_env example_world example_dialing example_hello
       = Inr (example_dialing, [])"
proof -
  have h: "ssh example_ready \<noteq> None" and st: "stream example_ready"
    by (simp_all add: example_ready_def)
  have h': "ssh example_dialing \<noteq> None" and st': "\<not> stream example_dialing"
    by (simp_all add: example_dialing_def)
  have p: "JSON_parse example_hello = Some example_cfg"
    unfolding example_hello_def example_cfg_def by code_simp
  have t: "get_prop example_cfg ''type'' \<noteq> Str ''resize''"
    by (simp add: example_cfg_def)
  from later_handshake_is_input [OF h, of example_env example_world example_hello] p t
  have "on_message example_env example_world example_ready example_hello
       = Inr (example_ready, if stream example_ready then [StreamWrite example_hello] else [])"
    by blast
  with st have m: "on_message example_env example_world example_ready example_hello
       = Inr (example_ready, [StreamWrite example_hello])"
    by simp
  from later_handshake_is_input [OF h', of example_env example_world example_hello] p t
  have "on_message example_env example_world example_dialing example_hello
       = Inr (example_dialing, if stream example_dialing then [StreamWrite example_hello] else [])"
    by blast
  with st' have m': "on_message example_env example_world example_dialing example_hello
       = Inr (example_dialing, [])"
    by simp
  from h h' p t m m' show ?thesis by blast
qed

section \<open>After the client has closed\<close>

text \<open>
  No handler sets \<open>alive\<close> again. Without it the two data handlers send nothing; the
  error handler does not look at it.
\<close>

lemma handshake_alive:
  assumes "handshake e w s raw = Inr (s', acts)"
  shows "alive s' = alive s \<and> filter is_send acts = []"
  using handshake_cases [OF assms] by auto

lemma step_not_alive:
  assumes "\<not> alive s" and "step e w s ev = Inr (s', acts)"
  shows "\<not> alive s' \<and> (\<forall>d. WsSend d \<in> set acts \<longrightarrow> (\<exists>m. ev = OnError m \<and> d = error_line m))"
proof (cases ev)
  case (OnMessage raw)
  show ?thesis
  proof (cases "ssh s = None")
    case True
    with assms OnMessage have "handshake e w s raw = Inr (s', acts)"
      by (simp add: on_message_def)
    from handshake_cases [OF this] assms(1) show ?thesis by auto
  next
    case False
    with assms OnMessage have "s' = s" and "acts = relay s raw"
      by (auto simp: on_message_relay)
    with assms(1) show ?thesis
      by (auto simp: relay_def write_input_def split: option.splits sum.splits if_splits)
  qed
next
  case OnReady
  with assms show ?thesis
    by (auto simp: on_ready_def split: option.splits sum.splits prod.splits)
next
  case (OnKeyboardInteractive n)
  with assms show ?thesis
    by (auto simp: on_keyboard_interactive_def split: option.splits sum.splits prod.splits if_splits)
next
  case (OnShell err)
  with assms show ?thesis
    by (auto simp: on_shell_def split: option.splits if_splits)
next
  case (OnError m)
  with assms show ?thesis
    by (auto simp: on_error_def split: if_splits)
qed (use assms in \<open>auto simp: on_close_def on_stream_data_def on_stderr_data_def
      on_stream_close_def split: if_splits\<close>)

lemma run_not_alive:
  assumes "\<not> alive s" and "run e s evs = (acts, r)"
  shows "(\<forall>s'. r = Inr s' \<longrightarrow> \<not> alive s')
       \<and> (\<forall>d. WsSend d \<in> set acts \<longrightarrow> (\<exists>w m. (w, OnError m) \<in> set evs \<and> d = error_line m))"
  using assms
proof (induction evs arbitrary: s acts r)
  case Nil
  then show ?case by auto
next
  case (Cons p evs)
  obtain w ev where p: "p = (w, ev)" by (cases p)
  show ?case
  proof (cases "step e w s ev")
    case (Inl x)
    with p Cons.prems show ?thesis by auto
  next
    case (Inr q)
    obtain s1 acts1 where q: "q = (s1, acts1)" by (cases q)
    obtain acts2 r2 where r2: "run e s1 evs = (acts2, r2)" by (cases "run e s1 evs")
    from step_not_alive [OF Cons.prems(1)] Inr q
    have st: "\<not> alive s1"
      "\<forall>d. WsSend d \<in> set acts1 \<longrightarrow> (\<exists>m. ev = OnError m \<and> d = error_line m)"
      by auto
    from Cons.IH [OF st(1) r2]
    have ih: "\<forall>s'. r2 = Inr s' \<longrightarrow> \<not> alive s'"
      "\<forall>d. WsSend d \<in> set acts2 \<longrightarrow> (\<exists>w m. (w, OnError m) \<in> set evs \<and> d = error_line m)"
      by auto
    from p Inr q r2 Cons.prems(2) have eq: "acts = acts1 @ acts2" "r = r2" by auto
    from eq ih(1) have a: "\<forall>s'. r = Inr s' \<longrightarrow> \<not> alive s'" by simp
    have b: "\<exists>w m. (w, OnError m) \<in> set (p # evs) \<and> d = error_line m"
      if "WsSend d \<in> set acts" for d
    proof -
      from that eq consider "WsSend d \<in> set acts1" | "WsSend d \<in> set acts2" by auto
      then show ?thesis
      proof cases
        case 1
        with st(2) obtain m where "ev = OnError m" and "d = error_line m" by blast
        with p have "(w, OnError m) \<in> set (p # evs)" by simp
        with \<open>d = error_line m\<close> show ?thesis by blast
      next
        case 2
        with ih(2) obtain w' m where "(w', OnError m) \<in> set evs" and "d = error_line m" by blast
        then have "(w', OnError m) \<in> set (p # evs)" by simp
        with \<open>d = error_line m\<close> show ?thesis by blast
      qed
    qed
    from a b show ?thesis by blast
  qed
qed

lemma run_snoc_data:
  assumes "\<not> alive s"
  shows "fst (run e s (evs @ [(w, OnStreamData d)])) = fst (run e s evs)
       \<and> fst (run e s (evs @ [(w, OnStderrData d)])) = fst (run e s evs)"
  using assms
proof (induction evs arbitrary: s)
  case Nil
  then show ?case by (simp add: on_stream_data_def on_stderr_data_def)
next
  case (Cons p evs)
  obtain w' ev where p: "p = (w', ev)" by (cases p)
  show ?case
  proof (cases "step e w' s ev")
    case (Inl x)
    with p show ?thesis by simp
  next
    case (Inr q)
    obtain s1 acts1 where q: "q = (s1, acts1)" by (cases q)
    from step_not_alive [OF Cons.prems] Inr q have "\<not> alive s1" by auto
    from Cons.IH [OF this] p Inr q show ?thesis
      by (simp add: split_beta)
  qed
qed

text \<open>
  C4, as the specification states it, fails in one part. Not every outbound send is
  behind the flag: the handler of an SSH error calls \<^verbatim>\<open>ws.send\<close> without reading it.
  After the close of the client, data of the shell is dropped, and an SSH error still
  sends its line to the client.
\<close>

theorem error_line_sent_after_close:
  "run example_env example_ready
     [(example_world, OnClose), (example_world, OnStreamData ''late''),
      (example_world, OnError ''gone'')]
   = ([StreamClose, SshEnd, WsSend (error_line ''gone''), WsClose None],
      Inr (example_ready\<lparr>alive := False\<rparr>))"
  by (simp add: example_ready_def on_close_def on_stream_data_def on_error_def)

text \<open>
  C4, amended. The close of the client clears the flag, and it stays cleared whatever
  happens next. From then on a data event of the shell, stdout or stderr, sends nothing
  to the client, at any later moment. The sends behind the flag are those of shell
  data; the only sends after the close are the lines of the SSH error handler, which
  are not behind it.
\<close>

theorem no_shell_data_after_close:
  assumes "run e (fst (on_close s)) evs = (acts, r)"
  shows "\<not> alive (fst (on_close s))
    \<and> (\<forall>s'. r = Inr s' \<longrightarrow> \<not> alive s')
    \<and> fst (run e (fst (on_close s)) (evs @ [(w, OnStreamData d)])) = acts
    \<and> fst (run e (fst (on_close s)) (evs @ [(w, OnStderrData d)])) = acts
    \<and> (\<forall>x. WsSend x \<in> set acts \<longrightarrow> (\<exists>w' m. (w', OnError m) \<in> set evs \<and> x = error_line m))"
proof -
  have dead: "\<not> alive (fst (on_close s))"
    by (simp add: on_close_def)
  from run_not_alive [OF dead assms] run_snoc_data [OF dead, of e evs w d] assms dead
  show ?thesis by simp
qed

theorem no_shell_data_after_close_witness:
  "run example_env (fst (on_close example_ready))
      [(example_world, OnStreamData ''late''), (example_world, OnStderrData ''later'')]
     = ([], Inr (example_ready\<lparr>alive := False\<rparr>))
   \<and> fst (run example_env (fst (on_close example_ready))
        ([(example_world, OnStreamData ''late''), (example_world, OnStderrData ''later'')]
         @ [(example_world, OnStreamData ''last'')])) = []"
proof -
  have r: "run example_env (fst (on_close example_ready))
      [(example_world, OnStreamData ''late''), (example_world, OnStderrData ''later'')]
     = ([], Inr (example_ready\<lparr>alive := False\<rparr>))"
    by (simp add: example_ready_def on_close_def on_stream_data_def on_stderr_data_def)
  from no_shell_data_after_close [OF r, of example_world "''last''"] r
  show ?thesis by blast
qed

section \<open>The handshake\<close>

text \<open>
  The token check passes iff the first frame is not \<^verbatim>\<open>null\<close>, has a token, and the token
  verifies.
\<close>

lemma token_ok_iff:
  "token_ok w cfg =
     (\<not> nullish cfg \<and> truthy (get_prop cfg ''token'') \<and> jwt_verify w (get_prop cfg ''token''))"
  by (simp add: token_ok_def get_def)

text \<open>
  C5. The mode of the token check depends on the environment variable alone, read at
  start. If \<^verbatim>\<open>USE_AUTH\<close> is the string \<^verbatim>\<open>false\<close>, the first frame, once parsed, goes to the
  lookup of the target without any look at its token: a handshake without a token
  passes. With any other value, or none, a handshake whose token is missing or does not
  verify closes the client with code 1008 and reason \<^verbatim>\<open>JWT invalid\<close>, whatever the store
  holds: nothing is looked up and no SSH connection is made; a token that verifies lets
  the handshake go on to the lookup.
\<close>

theorem token_check_modes:
  assumes "ssh s = None" and "JSON_parse raw = Some cfg"
  shows "(env_USE_AUTH e = Some ''false'' \<longrightarrow> on_message e w s raw = dial e w s cfg)
    \<and> (env_USE_AUTH e \<noteq> Some ''false'' \<longrightarrow>
         (if \<not> nullish cfg \<and> truthy (get_prop cfg ''token'') \<and> jwt_verify w (get_prop cfg ''token'')
          then on_message e w s raw = dial e w s cfg
          else on_message e w s raw = Inr (s, [WsClose (Some (1008, Text ''JWT invalid''))])))"
  using assms by (simp add: on_message_first handshake_def USE_AUTH_def token_ok_iff)

theorem token_check_modes_witness:
  "ssh initial = None
   \<and> JSON_parse ''{\"serverId\":\"t1\",\"cols\":120,\"rows\":40,\"auth\":{\"password\":\"p\"}}''
     = Some (Obj [(''serverId'', Str ''t1''), (''cols'', Num 120), (''rows'', Num 40),
                  (''auth'', Obj [(''password'', Str ''p'')])])
   \<and> on_message \<lparr>env_USE_AUTH = Some ''false'', env_ALLOWED_SSH_HOSTS = None\<rparr> example_world initial
        ''{\"serverId\":\"t1\",\"cols\":120,\"rows\":40,\"auth\":{\"password\":\"p\"}}''
     = Inr (initial\<lparr>ssh := Some (Obj [(''serverId'', Str ''t1''), (''cols'', Num 120),
                (''rows'', Num 40), (''auth'', Obj [(''password'', Str ''p'')])], example_srv)\<rparr>,
            [SshConnect \<lparr>host = Str ''10.0.0.2'', port = Num 22, username = Str ''ada'',
                         password = Str ''p'', privateKey = Undefined, tryKeyboard = True\<rparr>])
   \<and> on_message \<lparr>env_USE_AUTH = Some ''true'', env_ALLOWED_SSH_HOSTS = None\<rparr> example_world initial
        ''{\"serverId\":\"t1\",\"cols\":120,\"rows\":40,\"auth\":{\"password\":\"p\"}}''
     = Inr (initial, [WsClose (Some (1008, Text ''JWT invalid''))])
   \<and> on_message \<lparr>env_USE_AUTH = None, env_ALLOWED_SSH_HOSTS = None\<rparr> example_world initial
        ''{\"serverId\":\"t1\",\"cols\":120,\"rows\":40,\"auth\":{\"password\":\"p\"}}''
     = Inr (initial, [WsClose (Some (1008, Text ''JWT invalid''))])"
proof -
  let ?raw = "''{\"serverId\":\"t1\",\"cols\":120,\"rows\":40,\"auth\":{\"password\":\"p\"}}''"
  let ?cfg = "Obj [(''serverId'', Str ''t1''), (''cols'', Num 120), (''rows'', Num 40),
                  (''auth'', Obj [(''password'', Str ''p'')])]"
  let ?off = "\<lparr>env_USE_AUTH = Some ''false'', env_ALLOWED_SSH_HOSTS = None\<rparr>"
  let ?on = "\<lparr>env_USE_AUTH = Some ''true'', env_ALLOWED_SSH_HOSTS = None\<rparr>"
  let ?unset = "\<lparr>env_USE_AUTH = None, env_ALLOWED_SSH_HOSTS = None\<rparr>"
  have i: "ssh initial = None"
    by (simp add: initial_def)
  have p: "JSON_parse ?raw = Some ?cfg"
    by code_simp
  have d: "dial ?off example_world initial ?cfg
     = Inr (initial\<lparr>ssh := Some (?cfg, example_srv)\<rparr>,
            [SshConnect \<lparr>host = Str ''10.0.0.2'', port = Num 22, username = Str ''ada'',
                         password = Str ''p'', privateKey = Undefined, tryKeyboard = True\<rparr>])"
    unfolding example_world_def example_store_def example_srv_def initial_def
    by code_simp
  have t: "\<not> truthy (get_prop ?cfg ''token'')"
    by simp
  have a: "on_message ?off example_world initial ?raw = dial ?off example_world initial ?cfg"
    using token_check_modes [OF i p, of ?off example_world] by simp
  have b: "on_message ?on example_world initial ?raw
     = Inr (initial, [WsClose (Some (1008, Text ''JWT invalid''))])"
    using token_check_modes [OF i p, of ?on example_world] t by simp
  have c: "on_message ?unset example_world initial ?raw
     = Inr (initial, [WsClose (Some (1008, Text ''JWT invalid''))])"
    using token_check_modes [OF i p, of ?unset example_world] t by simp
  from i p a d b c show ?thesis by simp
qed






section \<open>Host admission\<close>





section \<open>The terminal requested\<close>




end
